theory Spec2Isabelle
  imports Main "HOL-Library.Char_ord" "HOL-Library.List_Lexorder"
begin

section \<open>The sidebar index of \<open>doc/mongodb/coll/options/sidebar-items.js\<close>\<close>

text \<open>
  The file is one statement: a call of \<open>initSidebarItems\<close> on an object literal. The
  literal has three keys, \<open>enum\<close>, \<open>struct\<close> and \<open>type\<close>, each holding an array of
  two-element arrays of strings: an identifier and its one-line summary.

  The object is an association list in the order of the literal (its keys are distinct, so
  nothing is shadowed), an inner two-element array is a pair.
\<close>

type_synonym entry = "string \<times> string"

definition identifier_of :: "entry \<Rightarrow> string" where
  "identifier_of e = fst e"

definition summary_of :: "entry \<Rightarrow> string" where
  "summary_of e = snd e"

definition sidebar_items :: "(string \<times> entry list) list" where
  "sidebar_items =
    [(''enum'',
       [(''CursorType'', ''Describes the type of cursor to return on collection queries.''),
        (''ReturnDocument'', ''Describes the type of document to return on write operations.''),
        (''WriteModel'', ''Marker interface for writes that can be batched together.'')]),
     (''struct'',
       [(''AggregateOptions'', ''Options for aggregation queries.''),
        (''CountOptions'', ''Options for count queries.''),
        (''DistinctOptions'', ''Options for distinct queries.''),
        (''FindOneAndDeleteOptions'', ''Options for `findOneAndDelete` operations.''),
        (''FindOneAndUpdateOptions'', ''Options for `findOneAndUpdate` operations.''),
        (''FindOptions'', ''Options for collection queries.''),
        (''IndexModel'', ''A single index model.''),
        (''IndexOptions'', ''Options for index operations.''),
        (''InsertManyOptions'', ''Options for insertMany operations.''),
        (''UpdateOptions'', ''Options for update operations.'')]),
     (''type'',
       [(''ReplaceOptions'', [])])]"

text \<open>
  The file defines no accessor of its own, so the table is read as an object is:
  \<open>lookup\<close> is the value stored under an own key of the literal (\<open>None\<close> where
  JavaScript gives \<open>undefined\<close>), \<open>allCategories\<close> is the set of its own keys.
\<close>

definition lookup :: "string \<Rightarrow> entry list option" where
  "lookup category = map_of sidebar_items category"

definition allCategories :: "string set" where
  "allCategories = set (map fst sidebar_items)"

text \<open>Every entry of the table with the category it stands in, in the order of the literal.\<close>

definition all_entries :: "(string \<times> entry) list" where
  "all_entries = concat (map (\<lambda>(c, es). map (Pair c) es) sidebar_items)"

subsection \<open>The literal as an untyped value\<close>

text \<open>
  The same argument of \<open>initSidebarItems\<close>, read without the typing above: objects, arrays
  and strings are the only values the file contains.
\<close>

datatype js_value =
    JString string
  | JArray "js_value list"
  | JObject "(string \<times> js_value) list"

definition sidebar_items_js :: js_value where
  "sidebar_items_js =
    JObject
    [(''enum'', JArray
       [JArray [JString ''CursorType'', JString ''Describes the type of cursor to return on collection queries.''],
        JArray [JString ''ReturnDocument'', JString ''Describes the type of document to return on write operations.''],
        JArray [JString ''WriteModel'', JString ''Marker interface for writes that can be batched together.'']]),
     (''struct'', JArray
       [JArray [JString ''AggregateOptions'', JString ''Options for aggregation queries.''],
        JArray [JString ''CountOptions'', JString ''Options for count queries.''],
        JArray [JString ''DistinctOptions'', JString ''Options for distinct queries.''],
        JArray [JString ''FindOneAndDeleteOptions'', JString ''Options for `findOneAndDelete` operations.''],
        JArray [JString ''FindOneAndUpdateOptions'', JString ''Options for `findOneAndUpdate` operations.''],
        JArray [JString ''FindOptions'', JString ''Options for collection queries.''],
        JArray [JString ''IndexModel'', JString ''A single index model.''],
        JArray [JString ''IndexOptions'', JString ''Options for index operations.''],
        JArray [JString ''InsertManyOptions'', JString ''Options for insertMany operations.''],
        JArray [JString ''UpdateOptions'', JString ''Options for update operations.'']]),
     (''type'', JArray
       [JArray [JString ''ReplaceOptions'', JString []]])]"

subsection \<open>Serializer and parser of the interchange format\<close>

text \<open>
  Modelled from the spec: the serializer of the table, which is not in the source (the
  file is its output). The spec's format is "a mapping from category name to an ordered
  sequence of (identifier, summary) pairs", of the shape
  \<open>{ "<category>": [ ["<identifier>", "<summary>"], ... ], ... }\<close>.
\<close>

definition serialize_entry :: "entry \<Rightarrow> js_value" where
  "serialize_entry e = JArray [JString (identifier_of e), JString (summary_of e)]"

definition serialize_category :: "string \<times> entry list \<Rightarrow> string \<times> js_value" where
  "serialize_category p = (fst p, JArray (map serialize_entry (snd p)))"

definition serialize :: "(string \<times> entry list) list \<Rightarrow> js_value" where
  "serialize t = JObject (map serialize_category t)"

text \<open>
  Modelled from the spec: the parser of that format, which is not in the source either.
  It accepts the shape above and nothing else. The format is a mapping, so a category
  name that comes twice keeps its first place and its last value, as a key of an object
  does.
\<close>

fun parse_entry :: "js_value \<Rightarrow> entry option" where
  "parse_entry (JArray [JString i, JString s]) = Some (i, s)"
| "parse_entry _ = None"

fun parse_entries :: "js_value list \<Rightarrow> entry list option" where
  "parse_entries [] = Some []"
| "parse_entries (v # vs) =
     (case parse_entry v of
        None \<Rightarrow> None
      | Some e \<Rightarrow> (case parse_entries vs of None \<Rightarrow> None | Some es \<Rightarrow> Some (e # es)))"

fun parse_category :: "js_value \<Rightarrow> entry list option" where
  "parse_category (JArray vs) = parse_entries vs"
| "parse_category _ = None"

fun put :: "string \<Rightarrow> entry list \<Rightarrow> (string \<times> entry list) list \<Rightarrow> (string \<times> entry list) list" where
  "put k es [] = [(k, es)]"
| "put k es (p # ps) = (if fst p = k then (k, es) # ps else p # put k es ps)"

fun parse_properties ::
  "(string \<times> js_value) list \<Rightarrow> (string \<times> entry list) list \<Rightarrow> (string \<times> entry list) list option" where
  "parse_properties [] t = Some t"
| "parse_properties (kv # kvs) t =
     (case parse_category (snd kv) of
        None \<Rightarrow> None
      | Some es \<Rightarrow> parse_properties kvs (put (fst kv) es t))"

fun parse :: "js_value \<Rightarrow> (string \<times> entry list) list option" where
  "parse (JObject kvs) = parse_properties kvs []"
| "parse _ = None"

section \<open>Facts about the table\<close>

subsection \<open>Reading the table\<close>

lemma distinct_categories: "distinct (map fst sidebar_items)"
  by (simp add: sidebar_items_def)

lemma lookup_iff: "lookup c = Some es \<longleftrightarrow> (c, es) \<in> set sidebar_items"
  unfolding lookup_def using distinct_categories by (rule map_of_eq_Some_iff)

lemma lookup_None_iff: "lookup c = None \<longleftrightarrow> c \<notin> allCategories"
  unfolding lookup_def allCategories_def by (simp add: map_of_eq_None_iff)

lemma allCategories_eq: "allCategories = {''enum'', ''struct'', ''type''}"
  by (auto simp add: allCategories_def sidebar_items_def)

lemma all_entries_iff:
  "(c, e) \<in> set all_entries \<longleftrightarrow> (\<exists>es. lookup c = Some es \<and> e \<in> set es)"
  unfolding lookup_iff all_entries_def by auto

lemma nth_in_all_entries:
  "lookup c = Some es \<Longrightarrow> i < length es \<Longrightarrow> (c, es ! i) \<in> set all_entries"
  unfolding all_entries_iff by simp

lemma category_distinct: "lookup c = Some es \<Longrightarrow> distinct (map identifier_of es)"
  unfolding lookup_iff by (auto simp add: sidebar_items_def identifier_of_def)

lemma distinct_identifiers: "distinct (map (identifier_of \<circ> snd) all_entries)"
  by (simp add: all_entries_def sidebar_items_def identifier_of_def)

lemma summaries_of_table:
  "\<forall>p \<in> set all_entries.
     (fst p, identifier_of (snd p)) \<noteq> (''type'', ''ReplaceOptions'') \<longrightarrow>
     summary_of (snd p) \<noteq> [] \<and> last (summary_of (snd p)) = CHR ''.''"
  by (simp add: all_entries_def sidebar_items_def identifier_of_def summary_of_def)

subsection \<open>Categories and their entries\<close>

text \<open>
  C1. For every category present in the table, \<open>lookup\<close> returns a non-empty sequence of
  entries whose identifiers are pairwise distinct.
\<close>

theorem lookup_nonempty_distinct:
  "c \<in> allCategories \<Longrightarrow>
   \<exists>es. lookup c = Some es \<and> es \<noteq> [] \<and> distinct (map identifier_of es)"
  unfolding allCategories_eq
  by (auto simp add: lookup_def sidebar_items_def identifier_of_def)

theorem lookup_nonempty_distinct_witness:
  "''enum'' \<in> allCategories \<and>
   (\<exists>es. lookup ''enum'' = Some es \<and> es \<noteq> [] \<and> distinct (map identifier_of es))"
proof -
  have present: "''enum'' \<in> allCategories" by (simp add: allCategories_eq)
  from present lookup_nonempty_distinct [OF present] show ?thesis by (rule conjI)
qed

text \<open>
  C2. \<open>allCategories\<close> is exactly the set of the names \<open>enum\<close>, \<open>struct\<close> and \<open>type\<close>: a
  name is in it if and only if the table has entries under that name.
\<close>

theorem allCategories_exact:
  "allCategories = {''enum'', ''struct'', ''type''} \<and>
   (c \<in> allCategories) = (lookup c \<noteq> None)"
  using allCategories_eq lookup_None_iff [of c] by simp

text \<open>
  C3. The entries of \<open>enum\<close> have the identifiers \<open>CursorType\<close>, \<open>ReturnDocument\<close> and
  \<open>WriteModel\<close>, in that order, and no others.
\<close>

theorem lookup_enum_identifiers:
  "\<exists>es. lookup ''enum'' = Some es \<and>
     map identifier_of es = [''CursorType'', ''ReturnDocument'', ''WriteModel'']"
  by (simp add: lookup_def sidebar_items_def identifier_of_def)

text \<open>
  C4. \<open>struct\<close> has exactly 10 entries; the first is \<open>AggregateOptions\<close> and the last is
  \<open>UpdateOptions\<close>.
\<close>

theorem lookup_struct_shape:
  "\<exists>es. lookup ''struct'' = Some es \<and> length es = 10 \<and>
     identifier_of (hd es) = ''AggregateOptions'' \<and>
     identifier_of (last es) = ''UpdateOptions''"
  by (simp add: lookup_def sidebar_items_def identifier_of_def)

text \<open>
  C5. \<open>type\<close> has exactly one entry: its identifier is \<open>ReplaceOptions\<close> and its summary is
  the empty string.
\<close>

theorem lookup_type_single:
  "\<exists>e. lookup ''type'' = Some [e] \<and> identifier_of e = ''ReplaceOptions'' \<and> summary_of e = []"
  by (simp add: lookup_def sidebar_items_def identifier_of_def summary_of_def)

subsection \<open>The interchange format\<close>

lemma parse_entry_serialize: "parse_entry (serialize_entry e) = Some e"
  by (simp add: serialize_entry_def identifier_of_def summary_of_def)

lemma parse_entries_serialize: "parse_entries (map serialize_entry es) = Some es"
  by (induction es) (simp_all add: parse_entry_serialize)

lemma put_fresh: "k \<notin> fst ` set t \<Longrightarrow> put k es t = t @ [(k, es)]"
  by (induction t) auto

lemma parse_properties_step:
  "parse_properties (serialize_category p # kvs) t0 =
   parse_properties kvs (put (fst p) (snd p) t0)"
  by (simp add: serialize_category_def parse_entries_serialize)

lemma parse_properties_serialize:
  "distinct (map fst (t0 @ t)) \<Longrightarrow>
   parse_properties (map serialize_category t) t0 = Some (t0 @ t)"
proof (induction t arbitrary: t0)
  case Nil
  then show ?case by simp
next
  case (Cons p t)
  from Cons.prems have "fst p \<notin> fst ` set t0" by auto
  then have stored: "put (fst p) (snd p) t0 = t0 @ [p]" by (simp add: put_fresh)
  from Cons.prems have "distinct (map fst ((t0 @ [p]) @ t))" by simp
  then have "parse_properties (map serialize_category t) (t0 @ [p]) = Some ((t0 @ [p]) @ t)"
    by (rule Cons.IH)
  moreover have "parse_properties (map serialize_category (p # t)) t0 =
      parse_properties (map serialize_category t) (put (fst p) (snd p) t0)"
    by (simp only: list.map parse_properties_step)
  ultimately show ?case using stored by simp
qed

lemma parse_serialize: "distinct (map fst t) \<Longrightarrow> parse (serialize t) = Some t"
  using parse_properties_serialize [of "[]" t] by (simp add: serialize_def)

lemma parse_entries_sound:
  "parse_entries vs = Some es \<Longrightarrow> map serialize_entry es = vs"
proof (induction vs arbitrary: es)
  case Nil
  then show ?case by simp
next
  case (Cons v vs)
  then show ?case
    by (cases v rule: parse_entry.cases)
       (auto simp add: serialize_entry_def identifier_of_def summary_of_def split: option.splits)
qed

text \<open>
  C7. Serializing the table to the interchange format and parsing the result gives the
  table back, unchanged; and the serialized table is the literal of the source file.
\<close>

theorem serialize_parse_roundtrip:
  "parse (serialize sidebar_items) = Some sidebar_items \<and>
   serialize sidebar_items = sidebar_items_js"
proof
  show "parse (serialize sidebar_items) = Some sidebar_items"
    using distinct_categories by (rule parse_serialize)
  show "serialize sidebar_items = sidebar_items_js"
    by (simp add: serialize_def serialize_category_def serialize_entry_def sidebar_items_def
        sidebar_items_js_def identifier_of_def summary_of_def)
qed

subsection \<open>Invariants of the whole table\<close>

text \<open>
  C8. Identifiers are pairwise distinct across the whole table: the identifiers of all
  entries, taken over all categories, form a list without repetition; and two entries at
  different places (a different category, or a different index in the same category) have
  different identifiers.
\<close>

theorem identifiers_distinct_across_table:
  "distinct (map (identifier_of \<circ> snd) all_entries) \<and>
   (\<forall>c1 c2 es1 es2 i j.
      lookup c1 = Some es1 \<and> lookup c2 = Some es2 \<and> i < length es1 \<and> j < length es2 \<and>
      (c1, i) \<noteq> (c2, j) \<longrightarrow> identifier_of (es1 ! i) \<noteq> identifier_of (es2 ! j))"
proof (intro conjI allI impI)
  show "distinct (map (identifier_of \<circ> snd) all_entries)"
    by (rule distinct_identifiers)
next
  fix c1 c2 es1 es2 i j
  assume a: "lookup c1 = Some es1 \<and> lookup c2 = Some es2 \<and> i < length es1 \<and> j < length es2 \<and>
      (c1, i) \<noteq> (c2, j)"
  show "identifier_of (es1 ! i) \<noteq> identifier_of (es2 ! j)"
  proof
    assume eq: "identifier_of (es1 ! i) = identifier_of (es2 ! j)"
    have inj: "inj_on (identifier_of \<circ> snd) (set all_entries)"
      using distinct_identifiers by (simp add: distinct_map)
    have m1: "(c1, es1 ! i) \<in> set all_entries" using a by (simp add: nth_in_all_entries)
    have m2: "(c2, es2 ! j) \<in> set all_entries" using a by (simp add: nth_in_all_entries)
    have "(identifier_of \<circ> snd) (c1, es1 ! i) = (identifier_of \<circ> snd) (c2, es2 ! j)"
      using eq by simp
    with inj have "(c1, es1 ! i) = (c2, es2 ! j)"
      using m1 m2 by (rule inj_onD)
    then have c: "c1 = c2" and e: "es1 ! i = es2 ! j" by simp_all
    from c a have es: "es1 = es2" by auto
    have "distinct es1" using a category_distinct [of c1 es1] by (simp add: distinct_map)
    with e es a have "i = j" by (simp add: nth_eq_iff_index_eq)
    with c a show False by simp
  qed
qed

theorem identifiers_distinct_across_table_witness:
  "\<exists>es1 es2. lookup ''enum'' = Some es1 \<and> lookup ''type'' = Some es2 \<and>
     0 < length es1 \<and> 0 < length es2 \<and> (''enum'', 0::nat) \<noteq> (''type'', 0) \<and>
     identifier_of (es1 ! 0) = ''CursorType'' \<and> identifier_of (es2 ! 0) = ''ReplaceOptions'' \<and>
     identifier_of (es1 ! 0) \<noteq> identifier_of (es2 ! 0)"
proof -
  obtain es1 where e1: "lookup ''enum'' = Some es1" "0 < length es1"
      "identifier_of (es1 ! 0) = ''CursorType''"
    by (simp add: lookup_def sidebar_items_def identifier_of_def)
  obtain es2 where e2: "lookup ''type'' = Some es2" "0 < length es2"
      "identifier_of (es2 ! 0) = ''ReplaceOptions''"
    by (simp add: lookup_def sidebar_items_def identifier_of_def)
  have ne: "(''enum'', 0::nat) \<noteq> (''type'', 0)" by simp
  from identifiers_distinct_across_table e1 e2 ne
  have "identifier_of (es1 ! 0) \<noteq> identifier_of (es2 ! 0)" by blast
  with e1 e2 ne show ?thesis by blast
qed

text \<open>
  C9. Within every category the identifiers are in strictly ascending lexicographic order
  (characters compared by their codes, a proper prefix before its extensions), so the
  order of the literal is the sorted order.
\<close>

theorem identifiers_strictly_ascending:
  "c \<in> allCategories \<Longrightarrow>
   \<exists>es. lookup c = Some es \<and> sorted_wrt (<) (map identifier_of es)"
  unfolding allCategories_eq
  by (auto simp add: lookup_def sidebar_items_def identifier_of_def)

theorem identifiers_strictly_ascending_witness:
  "''struct'' \<in> allCategories \<and>
   (\<exists>es. lookup ''struct'' = Some es \<and> sorted_wrt (<) (map identifier_of es))"
proof -
  have present: "''struct'' \<in> allCategories" by (simp add: allCategories_eq)
  from present identifiers_strictly_ascending [OF present] show ?thesis by (rule conjI)
qed

text \<open>
  C10. Every entry of the table other than \<open>ReplaceOptions\<close> of \<open>type\<close> has a summary
  that is not empty and ends with a full stop.
\<close>

theorem summaries_end_with_period:
  "lookup c = Some es \<Longrightarrow> e \<in> set es \<Longrightarrow>
   (c, identifier_of e) \<noteq> (''type'', ''ReplaceOptions'') \<Longrightarrow>
   summary_of e \<noteq> [] \<and> last (summary_of e) = CHR ''.''"
proof -
  assume "lookup c = Some es" and "e \<in> set es"
    and other: "(c, identifier_of e) \<noteq> (''type'', ''ReplaceOptions'')"
  then have "(c, e) \<in> set all_entries" by (auto simp add: all_entries_iff)
  with summaries_of_table other show ?thesis by fastforce
qed

theorem summaries_end_with_period_witness:
  "\<exists>es. lookup ''struct'' = Some es \<and>
     (''IndexModel'', ''A single index model.'') \<in> set es \<and>
     (''struct'', identifier_of (''IndexModel'', ''A single index model.'')) \<noteq>
       (''type'', ''ReplaceOptions'') \<and>
     summary_of (''IndexModel'', ''A single index model.'') \<noteq> [] \<and>
     last (summary_of (''IndexModel'', ''A single index model.'')) = CHR ''.''"
proof -
  obtain es where l: "lookup ''struct'' = Some es"
    and m: "(''IndexModel'', ''A single index model.'') \<in> set es"
    by (simp add: lookup_def sidebar_items_def)
  have o: "(''struct'', identifier_of (''IndexModel'', ''A single index model.'')) \<noteq>
     (''type'', ''ReplaceOptions'')" by simp
  from l m o summaries_end_with_period [OF l m o] show ?thesis by blast
qed

end
